theory Spec2Isabelle
  imports Complex_Main
begin

section \<open>The request context of cheetah, embedded in HOL\<close>

text \<open>
  The development follows the class \<open>RequestContext\<close>: its private slots \<open>#c\<close>, \<open>#h\<close>,
  \<open>#q\<close>, the getters \<open>cookies\<close>, \<open>headers\<close>, \<open>query\<close>, the asynchronous method \<open>body\<close> and the
  raw readers \<open>blob\<close>, \<open>buffer\<close>, \<open>formData\<close>.  A thrown exception is the left summand of
  a sum type, a getter that writes a slot returns the updated context next to its result,
  and a promise is the time at which it settles together with its outcome.
\<close>

subsection \<open>Values, errors and objects\<close>

text \<open>
  JavaScript strings are modelled by \<open>string\<close>: header values are byte strings (code points up
  to 255), which is what an 8-bit \<open>char\<close> holds.  Numbers are carried around and never
  computed on, so a real number stands for a JavaScript number.
\<close>

datatype js_value =
    JUndefined
  | JNull
  | JBool bool
  | JNum real
  | JStr string
  | JBlob "nat list"
  | JArr "js_value list"
  | JObj "(string \<times> js_value) list"

text \<open>
  \<open>Exception n\<close> is the framework's own \<open>Exception\<close> carrying an HTTP status;
  \<open>DeadlineError\<close> is the class of the standard library's deadline combinator; every other
  error of the platform (\<open>TypeError\<close>, \<open>SyntaxError\<close>, \<open>URIError\<close>, ...) is a \<open>PlatformError\<close>
  with its name.
\<close>

datatype js_error = Exception nat | DeadlineError | PlatformError string

text \<open>
  An object literal \<open>{}\<close> and what is stored into it: the own properties in insertion
  order.  The object inherits from \<open>Object.prototype\<close>: a read \<open>o[k]\<close> of a key that is not
  an own property finds the inherited members (functions, all truthy).  The source runs
  on Deno, which removes \<open>__proto__\<close> from \<open>Object.prototype\<close>: there \<open>__proto__\<close> is a key
  like any other, neither inherited nor special when written.
\<close>

type_synonym js_object = "(string \<times> js_value) list"

definition object_prototype_keys :: "string list" where
  "object_prototype_keys =
     [''constructor'', ''__defineGetter__'', ''__defineSetter__'', ''hasOwnProperty'',
      ''__lookupGetter__'', ''__lookupSetter__'', ''isPrototypeOf'', ''propertyIsEnumerable'',
      ''toString'', ''valueOf'', ''toLocaleString'']"

fun truthy :: "js_value \<Rightarrow> bool" where
  "truthy JUndefined = False"
| "truthy JNull = False"
| "truthy (JBool b) = b"
| "truthy (JNum n) = (n \<noteq> 0)"
| "truthy (JStr s) = (s \<noteq> [])"
| "truthy (JBlob bs) = True"
| "truthy (JArr vs) = True"
| "truthy (JObj ps) = True"

text \<open>\<open>!!o[k]\<close>: the truth value of a property read through the prototype chain.\<close>

definition obj_get_truthy :: "js_object \<Rightarrow> string \<Rightarrow> bool" where
  "obj_get_truthy ob k =
     (case map_of ob k of
        Some v \<Rightarrow> truthy v
      | None \<Rightarrow> k \<in> set object_prototype_keys)"

text \<open>\<open>o[k] = v\<close>: an own property is overwritten in place, a new one is added last.\<close>

fun obj_set :: "js_object \<Rightarrow> string \<Rightarrow> js_value \<Rightarrow> js_object" where
  "obj_set [] k v = [(k, v)]"
| "obj_set ((k', v') # ps) k v = (if k' = k then (k, v) # ps else (k', v') # obj_set ps k v)"

text \<open>\<open>delete o[k]\<close>.\<close>

definition obj_delete :: "js_object \<Rightarrow> string \<Rightarrow> js_object" where
  "obj_delete ob k = filter (\<lambda>p. fst p \<noteq> k) ob"

subsection \<open>String operations of the platform\<close>

text \<open>
  \<open>\s\<close> of a regular expression without the unicode flag, on code points up to 255: tab, line
  feed, vertical tab, form feed, carriage return, space and no-break space.  The dot of a
  regular expression matches everything but a line terminator.
\<close>

definition is_space :: "char \<Rightarrow> bool" where
  "is_space ch =
     (ch \<in> set [CHR 0x09, CHR 0x0A, CHR 0x0B, CHR 0x0C, CHR 0x0D, CHR 0x20, CHR 0xA0])"

definition is_line_terminator :: "char \<Rightarrow> bool" where
  "is_line_terminator ch = (ch \<in> set [CHR 0x0A, CHR 0x0D])"

definition is_dot :: "char \<Rightarrow> bool" where
  "is_dot ch = (\<not> is_line_terminator ch)"

text \<open>
  \<open>String.prototype.toLowerCase\<close> on code points up to 255: the letters \<open>A\<close> to \<open>Z\<close> and the
  Latin-1 capitals 192 to 222 (without the multiplication sign 215) gain bit 5.
\<close>

definition is_upper :: "char \<Rightarrow> bool" where
  "is_upper ch =
     (let n = (of_char ch :: nat)
      in (65 \<le> n \<and> n \<le> 90) \<or> (192 \<le> n \<and> n \<le> 222 \<and> n \<noteq> 215))"

definition lower_char :: "char \<Rightarrow> char" where
  "lower_char ch =
     (if is_upper ch
      then (case ch of Char b0 b1 b2 b3 b4 b5 b6 b7 \<Rightarrow> Char b0 b1 b2 b3 b4 True b6 b7)
      else ch)"

definition toLowerCase :: "string \<Rightarrow> string" where
  "toLowerCase s = map lower_char s"

text \<open>\<open>s.split(sep)\<close> for a one-character string separator: every occurrence cuts.\<close>

fun split_char :: "char \<Rightarrow> string \<Rightarrow> string list" where
  "split_char sep [] = [[]]"
| "split_char sep (ch # cs) =
     (if ch = sep then [] # split_char sep cs
      else (case split_char sep cs of
              [] \<Rightarrow> [[ch]]
            | piece # pieces \<Rightarrow> (ch # piece) # pieces))"

text \<open>
  The first match of \<open>/;\s*/\<close> in a string: the text before it and the text after it (the
  star is greedy, so the rest starts at the first character that is not white space).
\<close>

fun find_semicolon :: "string \<Rightarrow> (string \<times> string) option" where
  "find_semicolon [] = None"
| "find_semicolon (ch # cs) =
     (if ch = CHR '';'' then Some ([], dropWhile is_space cs)
      else (case find_semicolon cs of
              None \<Rightarrow> None
            | Some (before, rest) \<Rightarrow> Some (ch # before, rest)))"

lemma find_semicolon_shorter:
  "find_semicolon s = Some (before, rest) \<Longrightarrow> length rest < length s"
proof (induction s arbitrary: before rest)
  case Nil
  then show ?case by simp
next
  case (Cons ch cs)
  show ?case
  proof (cases "ch = CHR '';''")
    case True
    with Cons.prems have "rest = dropWhile is_space cs" by simp
    then show ?thesis
      using length_dropWhile_le [of is_space cs] by simp
  next
    case False
    with Cons.prems obtain b where "find_semicolon cs = Some (b, rest)"
      by (auto split: option.splits)
    from Cons.IH [OF this] show ?thesis by simp
  qed
qed

text \<open>\<open>s.split(/;\s*/)\<close>: the pieces between the matches, the last piece always included.\<close>

function split_semicolon :: "string \<Rightarrow> string list" where
  "split_semicolon s =
     (case find_semicolon s of
        None \<Rightarrow> [s]
      | Some (before, rest) \<Rightarrow> before # split_semicolon rest)"
  by pat_completeness auto
termination
  by (relation "measure length") (auto dest: find_semicolon_shorter)

declare split_semicolon.simps [simp del]

text \<open>
  The first match of \<open>/=(.+)/\<close>: an equals sign followed by at least one character that is
  not a line terminator.  The result is the text before the match, the captured group (the
  longest run the dot accepts) and the text after the match.
\<close>

fun find_equals :: "string \<Rightarrow> (string \<times> string \<times> string) option" where
  "find_equals [] = None"
| "find_equals (ch # cs) =
     (if ch = CHR ''='' \<and> takeWhile is_dot cs \<noteq> []
      then Some ([], takeWhile is_dot cs, dropWhile is_dot cs)
      else (case find_equals cs of
              None \<Rightarrow> None
            | Some (before, cap, rest) \<Rightarrow> Some (ch # before, cap, rest)))"

lemma find_equals_shorter:
  "find_equals s = Some (before, cap, rest) \<Longrightarrow> length rest < length s"
proof (induction s arbitrary: before cap rest)
  case Nil
  then show ?case by simp
next
  case (Cons ch cs)
  show ?case
  proof (cases "ch = CHR ''='' \<and> takeWhile is_dot cs \<noteq> []")
    case True
    with Cons.prems have "rest = dropWhile is_dot cs" by simp
    then show ?thesis
      using length_dropWhile_le [of is_dot cs] by simp
  next
    case False
    with Cons.prems obtain b where "find_equals cs = Some (b, cap, rest)"
      by (auto split: option.splits)
    from Cons.IH [OF this] show ?thesis by simp
  qed
qed

text \<open>
  \<open>s.split(/=(.+)/)\<close>: a split by a regular expression with a capturing group splices the
  group into the array, so \<open>'a=1'\<close> gives \<open>['a', '1', '']\<close> and a string without a match gives
  the one-element array of itself.
\<close>

function split_equals :: "string \<Rightarrow> string list" where
  "split_equals s =
     (case find_equals s of
        None \<Rightarrow> [s]
      | Some (before, cap, rest) \<Rightarrow> before # cap # split_equals rest)"
  by pat_completeness auto
termination
  by (relation "measure length") (auto dest: find_equals_shorter)

declare split_equals.simps [simp del]

text \<open>
  The array pattern \<open>[k, v]\<close>: the first two elements, \<open>undefined\<close> (\<open>None\<close>) where the
  array is too short.
\<close>

fun destructure2 :: "string list \<Rightarrow> string option \<times> string option" where
  "destructure2 [] = (None, None)"
| "destructure2 [k] = (Some k, None)"
| "destructure2 (k # v # more) = (Some k, Some v)"

text \<open>A value of type \<open>string | undefined\<close> as a JavaScript value.\<close>

fun string_or_undefined :: "string option \<Rightarrow> js_value" where
  "string_or_undefined None = JUndefined"
| "string_or_undefined (Some s) = JStr s"

subsection \<open>Promises and the deadline combinator\<close>

text \<open>
  A promise is given by what becomes of it: it settles after some milliseconds, fulfilled
  with a value or rejected with an error, or it stays pending for ever.
\<close>

datatype 'a settled = Fulfilled 'a | Rejected js_error

datatype 'a promise = Settles nat "'a settled" | Pending

text \<open>
  Modelled from the spec: the function \<open>deadline\<close> of the Deno standard library
  (\<open>std/async/deadline.ts\<close>, imported as \<open>resolveWithDeadline\<close>, not part of this
  repository).  It races the promise against a timer of \<open>delay\<close> milliseconds: a promise
  that settles within the delay passes its outcome on, any other is rejected with a
  \<open>DeadlineError\<close> when the timer fires.  The result is the outcome the caller awaits and
  the time it waits for it.
\<close>

definition resolveWithDeadline :: "'a promise \<Rightarrow> nat \<Rightarrow> 'a settled \<times> nat" where
  "resolveWithDeadline p delay =
     (case p of
        Pending \<Rightarrow> (Rejected DeadlineError, delay)
      | Settles t outcome \<Rightarrow>
          if t \<le> delay then (outcome, t) else (Rejected DeadlineError, delay))"

subsection \<open>The request, the schemas and the context\<close>

text \<open>
  What the context uses of the platform's \<open>Request\<close>: the header entries in iteration
  order, whether the body stream has been consumed, the promise each body reader returns,
  and what \<open>clone()\<close> gives (an exception, or a copy with readers of its own).
\<close>

type_synonym form_data = "(string \<times> js_value) list"

record body_readers =
  r_text :: "string promise"
  r_json :: "js_value promise"
  r_formData :: "form_data promise"
  r_blob :: "nat list promise"
  r_arrayBuffer :: "nat list promise"

record request =
  r_headers :: "(string \<times> string) list"
  r_bodyUsed :: bool
  r_readers :: body_readers
  r_clone :: "js_error + body_readers"

text \<open>
  \<open>Headers.get(name)\<close>: header names compare without regard to ASCII case, and the values
  of all entries of that name are joined by a comma and a space; \<open>null\<close> when there is none.
\<close>

definition byte_lower :: "char \<Rightarrow> char" where
  "byte_lower ch =
     (if 65 \<le> (of_char ch :: nat) \<and> (of_char ch :: nat) \<le> 90
      then (case ch of Char b0 b1 b2 b3 b4 b5 b6 b7 \<Rightarrow> Char b0 b1 b2 b3 b4 True b6 b7)
      else ch)"

fun join_values :: "string list \<Rightarrow> string" where
  "join_values [] = []"
| "join_values [v] = v"
| "join_values (v # w # vs) = v @ '', '' @ join_values (w # vs)"

definition headers_get :: "(string \<times> string) list \<Rightarrow> string \<Rightarrow> string option" where
  "headers_get hs name =
     (case map snd (filter (\<lambda>e. map byte_lower (fst e) = map byte_lower name) hs) of
        [] \<Rightarrow> None
      | v # vs \<Rightarrow> Some (join_values (v # vs)))"

text \<open>
  A zod schema as far as the context looks into it: \<open>_def.typeName\<close>, for a union
  \<open>_def.options\<close>, and \<open>safeParse\<close>, whose result is \<open>None\<close> for \<open>success: false\<close> and the
  parsed \<open>data\<close> otherwise.
\<close>

datatype zod_def = ZodDef (typeName: string) (options: "zod_def list")

record schema =
  zdef :: zod_def
  safeParse :: "js_value \<Rightarrow> js_value option"

text \<open>
  The schema bundle \<open>s\<close> of the constructor: one optional schema per field, and the index
  signature, of which only \<open>transform\<close> is read.
\<close>

record schema_bundle =
  s_body :: "schema option"
  s_cookies :: "schema option"
  s_headers :: "schema option"
  s_query :: "schema option"
  s_transform :: js_value

text \<open>
  The private fields of \<open>RequestContext\<close>.  The slots \<open>#c\<close>, \<open>#h\<close> and \<open>#q\<close> hold \<open>None\<close> for
  \<open>undefined\<close>; an object, also an empty one, is truthy, so a test \<open>if (this.#c)\<close> asks
  whether the slot is \<open>Some\<close>.  \<open>#s\<close> is \<open>None\<close> for \<open>null\<close>.
\<close>

record request_context =
  ctx_c :: "js_object option"
  ctx_h :: "js_object option"
  ctx_i :: "string option"
  ctx_p :: "(string \<times> string) list"
  ctx_q :: "js_object option"
  ctx_qs :: "string option"
  ctx_r :: request
  ctx_s :: "schema_bundle option"

text \<open>\<open>this.#s?.cookies\<close> and its siblings: \<open>undefined\<close> when the bundle is \<open>null\<close>.\<close>

definition bundle_field :: "(schema_bundle \<Rightarrow> 'a option) \<Rightarrow> request_context \<Rightarrow> 'a option" where
  "bundle_field field ctx = (case ctx_s ctx of None \<Rightarrow> None | Some b \<Rightarrow> field b)"

text \<open>The constructor: the four arguments are stored, every slot starts undefined.\<close>

definition new_context ::
  "(string \<times> string) list \<Rightarrow> string option \<Rightarrow> request \<Rightarrow> schema_bundle option \<Rightarrow> request_context" where
  "new_context p qs r s =
     \<lparr>ctx_c = None, ctx_h = None, ctx_i = None, ctx_p = p, ctx_q = None,
      ctx_qs = qs, ctx_r = r, ctx_s = s\<rparr>"

subsection \<open>The getter \<open>cookies\<close>\<close>

text \<open>
  The callback of \<open>reduce\<close>: \<open>acc[k] = v\<close> for the first two elements of the split pair.  An
  undefined key would be written as the property \<open>'undefined'\<close>; a split never returns an
  empty array, so this does not happen.
\<close>

definition cookie_step :: "js_object \<Rightarrow> string list \<Rightarrow> js_object" where
  "cookie_step acc pair =
     (case destructure2 pair of
        (Some k, v) \<Rightarrow> obj_set acc k (string_or_undefined v)
      | (None, v) \<Rightarrow> obj_set acc ''undefined'' (string_or_undefined v))"

text \<open>
  The body of the \<open>try\<close> block: the header is read (\<open>''\<close> when there is none), a header
  of more than 1000 characters throws \<open>Exception(413)\<close>, any other is split into pairs,
  each pair is split at its first match of \<open>/=(.+)/\<close>, the pairs are folded into an object
  and the key \<open>''\<close> is deleted.
\<close>

definition cookies_parse :: "string \<Rightarrow> js_object" where
  "cookies_parse header =
     obj_delete (foldl cookie_step [] (map split_equals (split_semicolon header))) []"

definition cookies_try :: "request \<Rightarrow> js_error + js_object" where
  "cookies_try r =
     (let header = (case headers_get (r_headers r) ''cookies'' of None \<Rightarrow> [] | Some v \<Rightarrow> v)
      in if length header > 1000 then Inl (Exception 413)
         else Inr (cookies_parse header))"

text \<open>
  The \<open>try\<close> with its \<open>catch (_err) { this.#c = {} }\<close>: whatever is thrown inside the block
  leaves the empty object in the slot.
\<close>

definition cookies_caught :: "request \<Rightarrow> js_object" where
  "cookies_caught r = (case cookies_try r of Inl err \<Rightarrow> [] | Inr c \<Rightarrow> c)"

text \<open>
  The getter.  A filled slot or a missing schema returns the slot as it is.  Otherwise the
  slot is written, then validated: \<open>Exception(400)\<close> when the schema rejects it, the slot's
  object when it does not.
\<close>

definition cookies :: "request_context \<Rightarrow> (js_error + js_object option) \<times> request_context" where
  "cookies ctx =
     (case ctx_c ctx of
        Some c \<Rightarrow> (Inr (Some c), ctx)
      | None \<Rightarrow>
          (case bundle_field s_cookies ctx of
             None \<Rightarrow> (Inr None, ctx)
           | Some sch \<Rightarrow>
               (let c = cookies_caught (ctx_r ctx);
                    ctx' = ctx\<lparr>ctx_c := Some c\<rparr>
                in (case safeParse sch (JObj c) of
                      None \<Rightarrow> (Inl (Exception 400), ctx')
                    | Some data \<Rightarrow> (Inr (Some c), ctx')))))"

subsection \<open>The getter \<open>headers\<close>\<close>

text \<open>
  One round of the loop body: \<open>if (!this.#h[key.toLowerCase()]) this.#h[key.toLowerCase()] =
  value\<close>.  The test is a truthiness test of the property read.
\<close>

definition headers_step :: "js_object \<Rightarrow> string \<times> string \<Rightarrow> js_object" where
  "headers_step h e =
     (if obj_get_truthy h (toLowerCase (fst e)) then h
      else obj_set h (toLowerCase (fst e)) (JStr (snd e)))"

text \<open>
  The \<open>for ... of\<close> loop over the header entries with its counter \<open>num\<close>: the loop breaks when
  the counter is 50, and the counter grows in every round.
\<close>

fun headers_loop :: "(string \<times> string) list \<Rightarrow> nat \<Rightarrow> js_object \<Rightarrow> js_object" where
  "headers_loop [] num h = h"
| "headers_loop (e # es) num h =
     (if num = 50 then h else headers_loop es (num + 1) (headers_step h e))"

definition headers :: "request_context \<Rightarrow> (js_error + js_object) \<times> request_context" where
  "headers ctx =
     (case ctx_h ctx of
        Some h \<Rightarrow> (Inr h, ctx)
      | None \<Rightarrow>
          (let h = headers_loop (r_headers (ctx_r ctx)) 0 [];
               ctx' = ctx\<lparr>ctx_h := Some h\<rparr>
           in (case bundle_field s_headers ctx of
                 None \<Rightarrow> (Inr h, ctx')
               | Some sch \<Rightarrow>
                   (case safeParse sch (JObj h) of
                      None \<Rightarrow> (Inl (Exception 400), ctx')
                    | Some data \<Rightarrow> (Inr h, ctx')))))"

subsection \<open>The getter \<open>query\<close>\<close>

text \<open>
  The two global functions the getter calls are parameters of the model: each returns its
  value or the error it throws (\<open>URIError\<close>, \<open>SyntaxError\<close>).
\<close>

record builtins =
  decodeURIComponent :: "string \<Rightarrow> js_error + string"
  JSON_parse :: "string \<Rightarrow> js_error + js_value"

text \<open>
  \<open>try { this.#q[key] = JSON.parse(decodeURIComponent(value)) } catch (_err) { this.#q[key] =
  decodeURIComponent(value) }\<close>: the value that is assigned, or the error that leaves the
  \<open>catch\<close> block.
\<close>

definition query_try :: "builtins \<Rightarrow> string \<Rightarrow> js_error + js_value" where
  "query_try b v =
     (case decodeURIComponent b v of Inl err \<Rightarrow> Inl err | Inr s \<Rightarrow> JSON_parse b s)"

definition query_catch :: "builtins \<Rightarrow> string \<Rightarrow> js_error + js_value" where
  "query_catch b v =
     (case decodeURIComponent b v of Inl err \<Rightarrow> Inl err | Inr s \<Rightarrow> Inr (JStr s))"

definition query_value :: "builtins \<Rightarrow> string \<Rightarrow> js_error + js_value" where
  "query_value b v = (case query_try b v of Inl err \<Rightarrow> query_catch b v | Inr x \<Rightarrow> Inr x)"

text \<open>
  The loop over \<open>arr\<close>.  Each segment is split by \<open>split('=')\<close> and the first two pieces are
  bound to \<open>key\<close> and \<open>value\<close>.  An error that leaves the loop is returned with the object as
  far as it was filled.
\<close>

fun query_loop :: "builtins \<Rightarrow> string list \<Rightarrow> js_object \<Rightarrow> js_error option \<times> js_object" where
  "query_loop b [] q = (None, q)"
| "query_loop b (seg # segs) q =
     (case destructure2 (split_char CHR ''='' seg) of
        (None, value) \<Rightarrow> query_loop b segs q
      | (Some key, value) \<Rightarrow>
          (if key = [] then query_loop b segs q
           else (case value of
                   None \<Rightarrow> query_loop b segs (obj_set q key (JBool True))
                 | Some v \<Rightarrow>
                     (case query_value b v of
                        Inl err \<Rightarrow> (Some err, q)
                      | Inr x \<Rightarrow> query_loop b segs (obj_set q key x)))))"

text \<open>\<open>this.#q = {}\<close> and the block under \<open>if (this.#qs)\<close>: an empty string is falsy.\<close>

definition query_parse :: "builtins \<Rightarrow> string option \<Rightarrow> js_error option \<times> js_object" where
  "query_parse b qs =
     (case qs of
        None \<Rightarrow> (None, [])
      | Some str \<Rightarrow> if str = [] then (None, []) else query_loop b (split_char CHR ''&'' str) [])"

definition query ::
  "builtins \<Rightarrow> request_context \<Rightarrow> (js_error + js_object option) \<times> request_context" where
  "query b ctx =
     (case ctx_q ctx of
        Some q \<Rightarrow> (Inr (Some q), ctx)
      | None \<Rightarrow>
          (case bundle_field s_query ctx of
             None \<Rightarrow> (Inr None, ctx)
           | Some sch \<Rightarrow>
               (let parsed = query_parse b (ctx_qs ctx);
                    ctx' = ctx\<lparr>ctx_q := Some (snd parsed)\<rparr>
                in (case fst parsed of
                      Some err \<Rightarrow> (Inl err, ctx')
                    | None \<Rightarrow>
                        (case safeParse sch (JObj (snd parsed)) of
                           None \<Rightarrow> (Inl (Exception 400), ctx')
                         | Some data \<Rightarrow> (Inr (Some (snd parsed)), ctx'))))))"

subsection \<open>The method \<open>body\<close>\<close>

text \<open>The reader of the request a call issues, recorded so that theorems can speak of it.\<close>

datatype read_kind = ReadText | ReadFormData | ReadJson | ReadBlob | ReadArrayBuffer

text \<open>
  The condition of the first \<open>if\<close>: \<open>_def.typeName === 'ZodString'\<close>, or a \<open>'ZodUnion'\<close> whose
  options all have the type name \<open>'ZodString'\<close>.
\<close>

definition is_string_schema :: "zod_def \<Rightarrow> bool" where
  "is_string_schema d =
     (typeName d = ''ZodString'' \<or>
      (typeName d = ''ZodUnion'' \<and> list_all (\<lambda>opt. typeName opt = ''ZodString'') (options d)))"

text \<open>The condition of the second \<open>if\<close>.\<close>

definition is_form_request :: "request_context \<Rightarrow> bool" where
  "is_form_request ctx =
     (bundle_field (\<lambda>b. Some (s_transform b)) ctx = Some (JBool True) \<and>
      headers_get (r_headers (ctx_r ctx)) ''content-type'' = Some ''multipart/form-data'')"

text \<open>\<open>body = {}; for (const [key, value] of formData.entries()) body[key] = value\<close>.\<close>

definition flatten_form :: "form_data \<Rightarrow> js_value" where
  "flatten_form entries = JObj (foldl (\<lambda>acc e. obj_set acc (fst e) (snd e)) [] entries)"

text \<open>An awaited promise whose value is passed through a function.\<close>

fun map_settled :: "('a \<Rightarrow> 'b) \<Rightarrow> 'a settled \<times> nat \<Rightarrow> 'b settled \<times> nat" where
  "map_settled f (Fulfilled v, t) = (Fulfilled (f v), t)"
| "map_settled f (Rejected err, t) = (Rejected err, t)"

text \<open>
  The \<open>try\<close> block: which reader is called, and what awaiting it under the deadline of 3000
  milliseconds gives.
\<close>

definition body_try :: "request_context \<Rightarrow> schema \<Rightarrow> read_kind \<times> js_value settled \<times> nat" where
  "body_try ctx sch =
     (if is_string_schema (zdef sch)
      then (ReadText,
            map_settled JStr (resolveWithDeadline (r_text (r_readers (ctx_r ctx))) 3000))
      else if is_form_request ctx
      then (ReadFormData,
            map_settled flatten_form
              (resolveWithDeadline (r_formData (r_readers (ctx_r ctx))) 3000))
      else (ReadJson, resolveWithDeadline (r_json (r_readers (ctx_r ctx))) 3000))"

text \<open>\<open>new Exception(err instanceof DeadlineError ? 413 : 400)\<close>.\<close>

definition body_catch :: "js_error \<Rightarrow> js_error" where
  "body_catch err = Exception (if err = DeadlineError then 413 else 400)"

text \<open>
  What a call of \<open>body\<close> comes to: the value returned or the exception thrown, the time the
  call waited, and the readers it called.
\<close>

record body_result =
  br_value :: "js_error + js_value"
  br_waited :: nat
  br_reads :: "read_kind list"

definition body :: "request_context \<Rightarrow> body_result" where
  "body ctx =
     (case bundle_field s_body ctx of
        None \<Rightarrow> \<lparr>br_value = Inr JUndefined, br_waited = 0, br_reads = []\<rparr>
      | Some sch \<Rightarrow>
          (case body_try ctx sch of
             (kind, Rejected err, t) \<Rightarrow>
               \<lparr>br_value = Inl (body_catch err), br_waited = t, br_reads = [kind]\<rparr>
           | (kind, Fulfilled v, t) \<Rightarrow>
               (case safeParse sch v of
                  None \<Rightarrow> \<lparr>br_value = Inl (Exception 400), br_waited = t, br_reads = [kind]\<rparr>
                | Some data \<Rightarrow> \<lparr>br_value = Inr data, br_waited = t, br_reads = [kind]\<rparr>)))"

subsection \<open>The raw readers \<open>blob\<close>, \<open>buffer\<close> and \<open>formData\<close>\<close>

text \<open>
  The three methods differ in the reader they call only.  Inside the \<open>try\<close>: the reader of a
  clone when \<open>bodyUsed\<close> holds (and \<open>clone()\<close> may throw), the reader of the request itself
  otherwise, awaited under the deadline.
\<close>

definition raw_try ::
  "(body_readers \<Rightarrow> 'a promise) \<Rightarrow> request \<Rightarrow> nat \<Rightarrow> (js_error + 'a) \<times> nat" where
  "raw_try reader r delay =
     (if r_bodyUsed r
      then (case r_clone r of
              Inl err \<Rightarrow> (Inl err, 0)
            | Inr copy \<Rightarrow>
                (case resolveWithDeadline (reader copy) delay of
                   (Fulfilled v, t) \<Rightarrow> (Inr v, t)
                 | (Rejected err, t) \<Rightarrow> (Inl err, t)))
      else (case resolveWithDeadline (reader (r_readers r)) delay of
              (Fulfilled v, t) \<Rightarrow> (Inr v, t)
            | (Rejected err, t) \<Rightarrow> (Inl err, t)))"

text \<open>
  \<open>catch (_err) { return null }\<close>: the result is the value read or \<open>null\<close> (\<open>None\<close>); the sum
  type keeps a place for an exception a call could throw.
\<close>

definition raw_read ::
  "(body_readers \<Rightarrow> 'a promise) \<Rightarrow> request \<Rightarrow> nat \<Rightarrow> (js_error + 'a option) \<times> nat" where
  "raw_read reader r delay =
     (case raw_try reader r delay of
        (Inl err, t) \<Rightarrow> (Inr None, t)
      | (Inr v, t) \<Rightarrow> (Inr (Some v), t))"

text \<open>The parameter \<open>deadline = 2500\<close>: an argument left out takes the default.\<close>

definition default_deadline :: "nat option \<Rightarrow> nat" where
  "default_deadline d = (case d of None \<Rightarrow> 2500 | Some ms \<Rightarrow> ms)"

definition blob :: "nat option \<Rightarrow> request_context \<Rightarrow> (js_error + nat list option) \<times> nat" where
  "blob d ctx = raw_read r_blob (ctx_r ctx) (default_deadline d)"

definition buffer :: "nat option \<Rightarrow> request_context \<Rightarrow> (js_error + nat list option) \<times> nat" where
  "buffer d ctx = raw_read r_arrayBuffer (ctx_r ctx) (default_deadline d)"

definition formData :: "nat option \<Rightarrow> request_context \<Rightarrow> (js_error + form_data option) \<times> nat" where
  "formData d ctx = raw_read r_formData (ctx_r ctx) (default_deadline d)"

subsection \<open>Repeated calls\<close>

text \<open>
  \<open>calls f n ctx\<close> invokes an accessor \<open>n\<close> times in a row on one context, with nothing in
  between: the results in order, and the context after the last call.
\<close>

fun calls :: "('s \<Rightarrow> 'r \<times> 's) \<Rightarrow> nat \<Rightarrow> 's \<Rightarrow> 'r list \<times> 's" where
  "calls f 0 ctx = ([], ctx)"
| "calls f (Suc n) ctx =
     (case f ctx of (res, ctx') \<Rightarrow> (case calls f n ctx' of (rs, ctx'') \<Rightarrow> (res # rs, ctx'')))"

subsection \<open>Notions used in the statements\<close>

text \<open>
  What becomes of a promise within \<open>d\<close> milliseconds: it is not settled by then (the
  deadline expires), it is rejected by then, or it is fulfilled by then.
\<close>

definition expired :: "'a promise \<Rightarrow> nat \<Rightarrow> bool" where
  "expired p d = (case p of Pending \<Rightarrow> True | Settles t outcome \<Rightarrow> d < t)"

definition rejected_in_time :: "'a promise \<Rightarrow> nat \<Rightarrow> js_error \<Rightarrow> bool" where
  "rejected_in_time p d err =
     (case p of Pending \<Rightarrow> False | Settles t outcome \<Rightarrow> t \<le> d \<and> outcome = Rejected err)"

definition fulfilled_in_time :: "'a promise \<Rightarrow> nat \<Rightarrow> 'a \<Rightarrow> bool" where
  "fulfilled_in_time p d v =
     (case p of Pending \<Rightarrow> False | Settles t outcome \<Rightarrow> t \<le> d \<and> outcome = Fulfilled v)"

text \<open>The same for the promise of the reader a call has issued.\<close>

definition read_expired :: "read_kind \<Rightarrow> body_readers \<Rightarrow> nat \<Rightarrow> bool" where
  "read_expired kind rs d =
     (case kind of
        ReadText \<Rightarrow> expired (r_text rs) d
      | ReadFormData \<Rightarrow> expired (r_formData rs) d
      | ReadJson \<Rightarrow> expired (r_json rs) d
      | ReadBlob \<Rightarrow> expired (r_blob rs) d
      | ReadArrayBuffer \<Rightarrow> expired (r_arrayBuffer rs) d)"

definition read_rejected :: "read_kind \<Rightarrow> body_readers \<Rightarrow> nat \<Rightarrow> js_error \<Rightarrow> bool" where
  "read_rejected kind rs d err =
     (case kind of
        ReadText \<Rightarrow> rejected_in_time (r_text rs) d err
      | ReadFormData \<Rightarrow> rejected_in_time (r_formData rs) d err
      | ReadJson \<Rightarrow> rejected_in_time (r_json rs) d err
      | ReadBlob \<Rightarrow> rejected_in_time (r_blob rs) d err
      | ReadArrayBuffer \<Rightarrow> rejected_in_time (r_arrayBuffer rs) d err)"

text \<open>A decoded body under its schema: the parsed data, or \<open>Exception(400)\<close>.\<close>

definition validated :: "schema \<Rightarrow> js_value \<Rightarrow> js_error + js_value" where
  "validated sch v =
     (case safeParse sch v of None \<Rightarrow> Inl (Exception 400) | Some data \<Rightarrow> Inr data)"

text \<open>
  A best-effort result \<open>res\<close> for a promise: \<open>null\<close> when the deadline expires or the promise
  is rejected, the value when it is fulfilled in time.
\<close>

definition best_effort :: "'a option \<Rightarrow> 'a promise \<Rightarrow> nat \<Rightarrow> bool" where
  "best_effort res p d =
     ((expired p d \<longrightarrow> res = None)
      \<and> (\<forall>err. rejected_in_time p d err \<longrightarrow> res = None)
      \<and> (\<forall>v. fulfilled_in_time p d v \<longrightarrow> res = Some v))"

subsection \<open>Example schemas, requests and contexts\<close>

text \<open>
  \<open>any_mapping\<close> stands for \<open>z.record(z.any())\<close>: it accepts every object and nothing
  else.  \<open>session_schema\<close> stands for \<open>z.object({ session: z.string() })\<close>: it accepts an
  object with a string property \<open>session\<close> and returns that property alone.
  \<open>string_schema\<close> is \<open>z.string()\<close>, \<open>string_union_schema\<close> a union of two string schemas.
\<close>

definition any_mapping :: schema where
  "any_mapping =
     \<lparr>zdef = ZodDef ''ZodRecord'' [],
      safeParse = (\<lambda>v. case v of JObj ps \<Rightarrow> Some (JObj ps) | _ \<Rightarrow> None)\<rparr>"

definition session_schema :: schema where
  "session_schema =
     \<lparr>zdef = ZodDef ''ZodObject'' [],
      safeParse =
        (\<lambda>v. case v of
               JObj ps \<Rightarrow>
                 (case map_of ps ''session'' of
                    Some (JStr s) \<Rightarrow> Some (JObj [(''session'', JStr s)])
                  | _ \<Rightarrow> None)
             | _ \<Rightarrow> None)\<rparr>"

definition string_schema :: schema where
  "string_schema =
     \<lparr>zdef = ZodDef ''ZodString'' [],
      safeParse = (\<lambda>v. case v of JStr s \<Rightarrow> Some (JStr s) | _ \<Rightarrow> None)\<rparr>"

definition string_union_schema :: schema where
  "string_union_schema =
     \<lparr>zdef = ZodDef ''ZodUnion'' [ZodDef ''ZodString'' [], ZodDef ''ZodString'' []],
      safeParse = (\<lambda>v. case v of JStr s \<Rightarrow> Some (JStr s) | _ \<Rightarrow> None)\<rparr>"

text \<open>
  The two global functions on the strings of the examples: \<open>%22x%22\<close> decodes to \<open>x\<close> in
  double quotes, \<open>1\<close>, \<open>true\<close> and the quoted \<open>x\<close> are JSON, and any other string of the
  examples has no escape and is not JSON.
\<close>

definition example_builtins :: builtins where
  "example_builtins =
     \<lparr>decodeURIComponent = (\<lambda>s. if s = ''%22x%22'' then Inr ''\"x\"'' else Inr s),
      JSON_parse =
        (\<lambda>s. if s = ''1'' then Inr (JNum 1)
             else if s = ''true'' then Inr (JBool True)
             else if s = ''\"x\"'' then Inr (JStr ''x'')
             else Inl (PlatformError ''SyntaxError''))\<rparr>"

text \<open>A request whose body readers never settle, with the given header entries.\<close>

definition pending_readers :: body_readers where
  "pending_readers =
     \<lparr>r_text = Pending, r_json = Pending, r_formData = Pending, r_blob = Pending,
      r_arrayBuffer = Pending\<rparr>"

definition request_of :: "(string \<times> string) list \<Rightarrow> request" where
  "request_of hs =
     \<lparr>r_headers = hs, r_bodyUsed = False, r_readers = pending_readers,
      r_clone = Inr pending_readers\<rparr>"

definition cookies_only :: "schema \<Rightarrow> schema_bundle" where
  "cookies_only sch =
     \<lparr>s_body = None, s_cookies = Some sch, s_headers = None, s_query = None,
      s_transform = JUndefined\<rparr>"

text \<open>A \<open>cookies\<close> header of 1001 characters, and a schema that accepts any mapping.\<close>

definition oversized_context :: request_context where
  "oversized_context =
     new_context [] None (request_of [(''cookies'', replicate 1001 CHR ''a'')])
       (Some (cookies_only any_mapping))"

text \<open>The header \<open>a=1; b=2; c=\<close>, whose last pair has an empty value.\<close>

definition trailing_context :: request_context where
  "trailing_context =
     new_context [] None (request_of [(''cookies'', ''a=1; b=2; c='')])
       (Some (cookies_only any_mapping))"

text \<open>Two \<open>set-cookie\<close> entries, the first with an empty value, and no schema.\<close>

definition empty_first_context :: request_context where
  "empty_first_context =
     new_context [] None (request_of [(''set-cookie'', []), (''set-cookie'', ''a=1'')]) None"

text \<open>
  A context in which every getter has \<open>session_schema\<close>, and neither the cookies, nor the
  headers, nor the query string \<open>a\<close> have a \<open>session\<close>.
\<close>

definition rejected_context :: request_context where
  "rejected_context =
     new_context [] (Some ''a'') (request_of [(''cookies'', ''a=1'')])
       (Some \<lparr>s_body = None, s_cookies = Some session_schema,
               s_headers = Some session_schema, s_query = Some session_schema,
               s_transform = JUndefined\<rparr>)"

text \<open>
  A context without headers and without a query string, in which every getter has a
  schema that accepts any mapping: each getter builds the empty mapping.
\<close>

definition plain_context :: request_context where
  "plain_context =
     new_context [] None (request_of [])
       (Some \<lparr>s_body = None, s_cookies = Some any_mapping, s_headers = Some any_mapping,
               s_query = Some any_mapping, s_transform = JUndefined\<rparr>)"

text \<open>A context with a body schema, a \<open>transform\<close> entry, header entries and body readers.\<close>

definition body_context ::
  "schema \<Rightarrow> js_value \<Rightarrow> (string \<times> string) list \<Rightarrow> body_readers \<Rightarrow> request_context" where
  "body_context sch transform hs rs =
     new_context [] None
       \<lparr>r_headers = hs, r_bodyUsed = False, r_readers = rs,
        r_clone = Inl (PlatformError ''TypeError'')\<rparr>
       (Some \<lparr>s_body = Some sch, s_cookies = None, s_headers = None, s_query = None,
               s_transform = transform\<rparr>)"

text \<open>
  A request whose \<open>blob()\<close> is rejected after 10 milliseconds, whose \<open>arrayBuffer()\<close> is
  fulfilled after 3 and whose \<open>formData()\<close> never settles; and a request whose body is used
  and whose clone's \<open>blob()\<close> is fulfilled after 4 milliseconds.
\<close>

definition raw_context :: request_context where
  "raw_context =
     new_context [] None
       \<lparr>r_headers = [], r_bodyUsed = False,
        r_readers =
          \<lparr>r_text = Pending, r_json = Pending, r_formData = Pending,
           r_blob = Settles 10 (Rejected (PlatformError ''TypeError'')),
           r_arrayBuffer = Settles 3 (Fulfilled [1, 2, 3])\<rparr>,
        r_clone = Inl (PlatformError ''TypeError'')\<rparr>
       None"

definition used_context :: request_context where
  "used_context =
     new_context [] None
       \<lparr>r_headers = [], r_bodyUsed = True,
        r_readers = pending_readers,
        r_clone = Inr (pending_readers\<lparr>r_blob := Settles 4 (Fulfilled [7])\<rparr>)\<rparr>
       None"

section \<open>Properties\<close>

lemmas example_defs =
  new_context_def request_of_def cookies_only_def any_mapping_def session_schema_def
  bundle_field_def

lemmas cookies_defs =
  cookies_def cookies_caught_def cookies_try_def headers_get_def byte_lower_def
  cookies_parse_def split_semicolon.simps split_equals.simps cookie_step_def
  obj_delete_def is_space_def is_dot_def is_line_terminator_def Let_def

lemmas headers_defs =
  headers_def headers_step_def obj_get_truthy_def toLowerCase_def lower_char_def
  is_upper_def object_prototype_keys_def Let_def

lemmas query_defs = query_def query_parse_def Let_def

lemmas body_defs =
  body_def body_try_def is_string_schema_def is_form_request_def headers_get_def
  resolveWithDeadline_def byte_lower_def body_catch_def flatten_form_def

subsection \<open>Objects\<close>

lemma map_of_obj_set: "map_of (obj_set ob k v) = (map_of ob)(k \<mapsto> v)"
  by (induction ob k v rule: obj_set.induct) auto

lemma keys_obj_set: "fst ` set (obj_set ob k v) = insert k (fst ` set ob)"
  by (induction ob k v rule: obj_set.induct) auto

lemma length_obj_set: "length (obj_set ob k v) \<le> Suc (length ob)"
  by (induction ob k v rule: obj_set.induct) auto

lemma distinct_obj_set: "distinct (map fst ob) \<Longrightarrow> distinct (map fst (obj_set ob k v))"
proof (induction ob k v rule: obj_set.induct)
  case (1 k v)
  then show ?case by simp
next
  case (2 k' v' ps k v)
  then show ?case
    by (auto simp add: keys_obj_set)
qed

subsection \<open>The cookie getter\<close>

text \<open>No path through the getter ends in \<open>Exception(413)\<close>.\<close>

lemma cookies_never_raises_413: "fst (cookies ctx) \<noteq> Inl (Exception 413)"
  by (simp add: cookies_def Let_def split: option.splits)

text \<open>The parsed mapping has no empty key.\<close>

lemma cookies_parse_no_empty_key: "[] \<notin> fst ` set (cookies_parse header)"
  by (auto simp add: cookies_parse_def obj_delete_def)

text \<open>
  C1.  The claim: a \<open>cookies\<close> header of more than 1000 characters makes the first access
  of the cookie getter fail with \<open>Exception(413)\<close>.  The getter throws that exception inside
  its own \<open>try\<close> block, whose \<open>catch\<close> replaces it by the empty object: with a header of
  1001 characters and a schema that accepts any mapping the first access returns the
  empty mapping.
\<close>

theorem cookies_oversized_header_returns_empty:
  "headers_get (r_headers (ctx_r oversized_context)) ''cookies''
     = Some (replicate 1001 CHR ''a'')
   \<and> cookies_try (ctx_r oversized_context) = Inl (Exception 413)
   \<and> fst (cookies oversized_context) = Inr (Some [])"
  by (simp add: oversized_context_def example_defs cookies_def cookies_caught_def
      cookies_try_def headers_get_def byte_lower_def)

text \<open>
  C4.  The claim: the header \<open>a=1; b=2; c=\<close> yields the mapping of \<open>a\<close> to \<open>1\<close>, \<open>b\<close> to
  \<open>2\<close> and \<open>c\<close> to the empty string.  The pattern \<open>/=(.+)/\<close> needs a character after the
  equals sign, so the pair \<open>c=\<close> is not split: the getter returns the key \<open>c=\<close> with the
  value \<open>undefined\<close>, and no key \<open>c\<close>.
\<close>

theorem cookies_trailing_equals_is_part_of_key:
  "split_equals ''c='' = [''c='']
   \<and> fst (cookies trailing_context)
       = Inr (Some [(''a'', JStr ''1''), (''b'', JStr ''2''), (''c='', JUndefined)])"
  by (simp add: trailing_context_def example_defs cookies_defs)

text \<open>
  Where every value is non-empty the header is parsed as described: the value keeps a
  second equals sign, a pair with an empty key is dropped, and the last pair of a key wins.
\<close>

lemma cookies_parse_example:
  "cookies_parse ''a=1; b=x=y;  =z; a=2'' = [(''a'', JStr ''2''), (''b'', JStr ''x=y'')]"
  by (simp add: cookies_parse_def split_semicolon.simps split_equals.simps cookie_step_def
      obj_delete_def is_space_def is_dot_def is_line_terminator_def)

subsection \<open>The header getter\<close>

text \<open>The loop looks at the first 50 entries only, and the mapping has at most 50 keys.\<close>

lemma headers_loop_take:
  "num \<le> 50 \<Longrightarrow> headers_loop es num h = headers_loop (take (50 - num) es) num h"
proof (induction es arbitrary: num h)
  case Nil
  then show ?case by simp
next
  case (Cons e es)
  show ?case
  proof (cases "num = 50")
    case True
    then show ?thesis by simp
  next
    case False
    with Cons.prems have less: "num < 50" by simp
    then have "take (50 - num) (e # es) = e # take (50 - (num + 1)) es"
      by (simp add: take_Cons')
    moreover from less have "num + 1 \<le> 50" by simp
    ultimately show ?thesis
      using False Cons.IH [of "num + 1" "headers_step h e"] by simp
  qed
qed

lemma length_headers_step: "length (headers_step h e) \<le> Suc (length h)"
  using length_obj_set [of h "toLowerCase (fst e)" "JStr (snd e)"]
  by (simp add: headers_step_def)

lemma length_headers_loop:
  "num \<le> 50 \<Longrightarrow> length (headers_loop es num h) \<le> length h + (50 - num)"
proof (induction es arbitrary: num h)
  case Nil
  then show ?case by simp
next
  case (Cons e es)
  show ?case
  proof (cases "num = 50")
    case True
    then show ?thesis by simp
  next
    case False
    with Cons.prems have less: "num + 1 \<le> 50" by simp
    have "length (headers_loop es (num + 1) (headers_step h e))
            \<le> length (headers_step h e) + (50 - (num + 1))"
      by (rule Cons.IH [OF less])
    also have "\<dots> \<le> Suc (length h) + (50 - (num + 1))"
      using length_headers_step [of h e] by simp
    also have "\<dots> = length h + (50 - num)"
      using less by simp
    finally show ?thesis
      using False by simp
  qed
qed

lemma headers_at_most_50_entries:
  "fst (headers ctx) = Inr h \<Longrightarrow> ctx_h ctx = None \<Longrightarrow> length h \<le> 50"
  using length_headers_loop [of 0 "r_headers (ctx_r ctx)" "[]"]
  by (auto simp add: headers_def Let_def split: option.splits)

text \<open>
  C6.  The claim: the header getter keeps the first value seen for a lower-cased key and
  ignores every later entry of that key.  The test before the assignment is a truthiness
  test, and the empty string is falsy: for the entries \<open>set-cookie\<close> with an empty value and
  \<open>set-cookie\<close> with the value \<open>a=1\<close> the getter returns the second value.
\<close>

theorem headers_empty_first_value_is_replaced:
  "fst (headers empty_first_context) = Inr [(''set-cookie'', JStr ''a=1'')]"
  by (simp add: empty_first_context_def example_defs headers_defs)

text \<open>With non-empty values the first entry of a key wins, whatever the case of the key.\<close>

lemma headers_first_wins_example:
  "fst (headers (new_context [] None
          (request_of [(''Accept'', ''a''), (''X-Id'', ''7''), (''accept'', ''b'')]) None))
     = Inr [(''accept'', JStr ''a''), (''x-id'', JStr ''7'')]"
  by (simp add: example_defs headers_defs)

subsection \<open>The query getter\<close>

text \<open>
  C5.  The claim: a query segment is split at its first equals sign, so that a value may
  contain one.  \<open>split('=')\<close> cuts at every equals sign and the getter keeps the first two
  pieces: for the query string \<open>a=b=c\<close> the value handed to the decoder is \<open>b\<close>, whatever
  the decoder and the JSON parser do, and \<open>=c\<close> is lost.
\<close>

theorem query_value_cut_at_second_equals:
  "query_parse b (Some ''a=b=c'') =
     (case query_value b ''b'' of
        Inl err \<Rightarrow> (Some err, [])
      | Inr x \<Rightarrow> (None, [(''a'', x)]))"
  by (simp add: query_parse_def split: sum.splits)

text \<open>The example of the specification, with the builtins on its strings.\<close>

lemma query_parse_example:
  "query_parse example_builtins (Some ''a=1&b=true&c=%22x%22&d'')
     = (None, [(''a'', JNum 1), (''b'', JBool True), (''c'', JStr ''x''), (''d'', JBool True)])"
  by (simp add: query_parse_def query_value_def query_try_def query_catch_def
      example_builtins_def)

subsection \<open>The cache slots\<close>

lemma calls_fixed: "f ctx = (v, ctx) \<Longrightarrow> calls f n ctx = (replicate n v, ctx)"
  by (induction n) simp_all

lemma calls_Suc_fixed:
  assumes "f (snd (f ctx)) = (v, snd (f ctx))"
  shows "calls f (Suc n) ctx = (fst (f ctx) # replicate n v, snd (f ctx))"
proof -
  obtain res ctx' where first: "f ctx = (res, ctx')"
    by (cases "f ctx")
  with assms have "f ctx' = (v, ctx')" by simp
  then have "calls f n ctx' = (replicate n v, ctx')"
    by (rule calls_fixed)
  with first show ?thesis by simp
qed

lemma cookies_again:
  "cookies (snd (cookies ctx)) = (Inr (ctx_c (snd (cookies ctx))), snd (cookies ctx))"
  by (simp add: cookies_def Let_def split: option.splits)

lemma cookies_value_is_slot: "fst (cookies ctx) = Inr v \<Longrightarrow> v = ctx_c (snd (cookies ctx))"
  by (cases "ctx_c ctx"; cases "bundle_field s_cookies ctx")
    (auto simp add: cookies_def Let_def split: option.splits)

lemma headers_slot: "\<exists>h. ctx_h (snd (headers ctx)) = Some h"
  by (simp add: headers_def Let_def split: option.splits)

lemma headers_again:
  "ctx_h (snd (headers ctx)) = Some h \<Longrightarrow>
   headers (snd (headers ctx)) = (Inr h, snd (headers ctx))"
  by (cases "ctx_h ctx"; cases "bundle_field s_headers ctx")
    (auto simp add: headers_def Let_def split: option.splits)

lemma headers_value_is_slot:
  "fst (headers ctx) = Inr v \<Longrightarrow> ctx_h (snd (headers ctx)) = Some v"
  by (cases "ctx_h ctx"; cases "bundle_field s_headers ctx")
    (auto simp add: headers_def Let_def split: option.splits)

lemma query_again:
  "query b (snd (query b ctx)) = (Inr (ctx_q (snd (query b ctx))), snd (query b ctx))"
  by (simp add: query_def Let_def split: option.splits)

lemma query_value_is_slot: "fst (query b ctx) = Inr v \<Longrightarrow> v = ctx_q (snd (query b ctx))"
  by (cases "ctx_q ctx"; cases "bundle_field s_query ctx")
    (auto simp add: query_def Let_def split: option.splits)

text \<open>
  On a first access every getter validates what it has built: a rejected value raises
  \<open>Exception(400)\<close>.
\<close>

lemma first_access_rejects:
  "ctx_c ctx = None \<Longrightarrow> bundle_field s_cookies ctx = Some sch \<Longrightarrow>
   fst (cookies ctx) = Inr v \<Longrightarrow> \<exists>c. v = Some c \<and> safeParse sch (JObj c) \<noteq> None"
  "ctx_h ctx = None \<Longrightarrow> bundle_field s_headers ctx = Some sch \<Longrightarrow>
   fst (headers ctx) = Inr h \<Longrightarrow> safeParse sch (JObj h) \<noteq> None"
  "ctx_q ctx = None \<Longrightarrow> bundle_field s_query ctx = Some sch \<Longrightarrow>
   fst (query b ctx) = Inr w \<Longrightarrow> \<exists>q. w = Some q \<and> safeParse sch (JObj q) \<noteq> None"
  by (auto simp add: cookies_def headers_def query_def Let_def split: option.splits)

text \<open>
  C2.  The claim: no access to a validated getter, repeated accesses included, returns a
  value that failed its schema.  The getters write the slot before they validate it and
  never clear it: in a context whose schemas require a \<open>session\<close>, the first access of
  \<open>cookies\<close>, \<open>headers\<close> and \<open>query\<close> raises \<open>Exception(400)\<close> and the second access returns
  the very mapping the schema rejects.
\<close>

theorem cached_value_failed_its_schema:
  "fst (calls cookies (Suc (Suc 0)) rejected_context)
     = [Inl (Exception 400), Inr (Some [(''a'', JStr ''1'')])]
   \<and> safeParse session_schema (JObj [(''a'', JStr ''1'')]) = None
   \<and> fst (calls headers (Suc (Suc 0)) rejected_context)
     = [Inl (Exception 400), Inr [(''cookies'', JStr ''a=1'')]]
   \<and> safeParse session_schema (JObj [(''cookies'', JStr ''a=1'')]) = None
   \<and> fst (calls (query b) (Suc (Suc 0)) rejected_context)
     = [Inl (Exception 400), Inr (Some [(''a'', JBool True)])]
   \<and> safeParse session_schema (JObj [(''a'', JBool True)]) = None"
  by (simp add: rejected_context_def example_defs cookies_defs headers_defs query_defs)

text \<open>
  C7.  For each getter with a cache slot (\<open>cookies\<close>, \<open>headers\<close>, \<open>query\<close>), any number of
  calls in a row on one context gives, after the first result, the content of the slot as
  the first call left it, every time, and the context the first call left is never
  changed again.  A value the first call returns is that content.  For \<open>cookies\<close> and
  \<open>query\<close> without a schema the content is \<open>undefined\<close> and stays so.
\<close>

theorem cached_accessors_idempotent:
  "calls cookies (Suc n) ctx
     = (fst (cookies ctx) # replicate n (Inr (ctx_c (snd (cookies ctx)))), snd (cookies ctx))
   \<and> (\<forall>v. fst (cookies ctx) = Inr v \<longrightarrow> v = ctx_c (snd (cookies ctx)))
   \<and> (\<exists>h. ctx_h (snd (headers ctx)) = Some h
          \<and> calls headers (Suc n) ctx
              = (fst (headers ctx) # replicate n (Inr h), snd (headers ctx))
          \<and> (\<forall>v. fst (headers ctx) = Inr v \<longrightarrow> v = h))
   \<and> calls (query b) (Suc n) ctx
       = (fst (query b ctx) # replicate n (Inr (ctx_q (snd (query b ctx)))),
          snd (query b ctx))
   \<and> (\<forall>v. fst (query b ctx) = Inr v \<longrightarrow> v = ctx_q (snd (query b ctx)))"
proof -
  obtain h where h: "ctx_h (snd (headers ctx)) = Some h"
    using headers_slot by blast
  have "calls headers (Suc n) ctx = (fst (headers ctx) # replicate n (Inr h), snd (headers ctx))"
    by (rule calls_Suc_fixed) (rule headers_again [OF h])
  moreover have "\<forall>v. fst (headers ctx) = Inr v \<longrightarrow> v = h"
    using headers_value_is_slot h by fastforce
  moreover have "calls cookies (Suc n) ctx
     = (fst (cookies ctx) # replicate n (Inr (ctx_c (snd (cookies ctx)))), snd (cookies ctx))"
    by (rule calls_Suc_fixed) (rule cookies_again)
  moreover have "calls (query b) (Suc n) ctx
       = (fst (query b ctx) # replicate n (Inr (ctx_q (snd (query b ctx)))),
          snd (query b ctx))"
    by (rule calls_Suc_fixed) (rule query_again)
  ultimately show ?thesis
    using h cookies_value_is_slot query_value_is_slot by blast
qed

text \<open>
  Three calls of each getter where the mapping built is empty: the empty mapping is
  returned each time.
\<close>

theorem cached_accessors_idempotent_witness:
  "fst (calls cookies (Suc (Suc (Suc 0))) plain_context)
     = [Inr (Some []), Inr (Some []), Inr (Some [])]
   \<and> fst (calls headers (Suc (Suc (Suc 0))) plain_context) = [Inr [], Inr [], Inr []]
   \<and> fst (calls (query example_builtins) (Suc (Suc (Suc 0))) plain_context)
     = [Inr (Some []), Inr (Some []), Inr (Some [])]"
  using cached_accessors_idempotent [of "Suc (Suc 0)" plain_context example_builtins]
  by (simp add: plain_context_def example_defs cookies_defs headers_defs query_defs)

subsection \<open>The deadline combinator\<close>

lemma deadline_waited: "snd (resolveWithDeadline p d) \<le> d"
  by (simp add: resolveWithDeadline_def split: promise.splits)

lemma deadline_expired:
  "expired p d \<Longrightarrow> resolveWithDeadline p d = (Rejected DeadlineError, d)"
  by (simp add: resolveWithDeadline_def expired_def split: promise.splits)

lemma deadline_rejected:
  "rejected_in_time p d err \<Longrightarrow> fst (resolveWithDeadline p d) = Rejected err"
  by (simp add: resolveWithDeadline_def rejected_in_time_def split: promise.splits)

lemma deadline_fulfilled:
  "fulfilled_in_time p d v \<Longrightarrow> fst (resolveWithDeadline p d) = Fulfilled v"
  by (simp add: resolveWithDeadline_def fulfilled_in_time_def split: promise.splits)

lemma map_settled_snd: "snd (map_settled f x) = snd x"
  by (cases "(f, x)" rule: map_settled.cases) simp_all

lemma map_settled_rejected: "fst x = Rejected err \<Longrightarrow> fst (map_settled f x) = Rejected err"
  by (cases "(f, x)" rule: map_settled.cases) simp_all

lemma map_settled_fulfilled: "fst x = Fulfilled v \<Longrightarrow> fst (map_settled f x) = Fulfilled (f v)"
  by (cases "(f, x)" rule: map_settled.cases) simp_all

subsection \<open>The body method\<close>

text \<open>The method in terms of its \<open>try\<close> block.\<close>

lemma body_reads:
  "bundle_field s_body ctx = Some sch \<Longrightarrow> br_reads (body ctx) = [fst (body_try ctx sch)]"
  by (simp add: body_def split: prod.splits settled.splits option.splits)

lemma body_waited:
  "bundle_field s_body ctx = Some sch \<Longrightarrow>
   br_waited (body ctx) = snd (snd (body_try ctx sch))"
  by (simp add: body_def split: prod.splits settled.splits option.splits)

lemma body_value_rejected:
  "bundle_field s_body ctx = Some sch \<Longrightarrow> fst (snd (body_try ctx sch)) = Rejected err \<Longrightarrow>
   br_value (body ctx) = Inl (body_catch err)"
  by (cases "body_try ctx sch") (simp add: body_def)

lemma body_value_fulfilled:
  "bundle_field s_body ctx = Some sch \<Longrightarrow> fst (snd (body_try ctx sch)) = Fulfilled v \<Longrightarrow>
   br_value (body ctx) = validated sch v"
  by (cases "body_try ctx sch") (simp add: body_def validated_def split: option.splits)

lemma body_try_waited: "snd (snd (body_try ctx sch)) \<le> 3000"
  by (simp add: body_try_def map_settled_snd deadline_waited)

lemma body_try_expired:
  "read_expired (fst (body_try ctx sch)) (r_readers (ctx_r ctx)) 3000 \<Longrightarrow>
   fst (snd (body_try ctx sch)) = Rejected DeadlineError"
  by (auto simp add: body_try_def read_expired_def deadline_expired split: if_splits)

lemma body_try_rejected:
  "read_rejected (fst (body_try ctx sch)) (r_readers (ctx_r ctx)) 3000 err \<Longrightarrow>
   fst (snd (body_try ctx sch)) = Rejected err"
  by (auto simp add: body_try_def read_rejected_def deadline_rejected map_settled_rejected
      split: if_splits)

text \<open>
  C3.  Without a body schema the method returns \<open>undefined\<close>, waits for nothing and calls no
  reader.  With a body schema it calls one reader and waits at most 3000 milliseconds;
  when the promise of that reader is not settled within 3000 milliseconds the method
  throws \<open>Exception(413)\<close>, and when the promise is rejected within that time, with an error
  that is not of the class \<open>DeadlineError\<close>, the method throws \<open>Exception(400)\<close>.
\<close>

theorem body_reads_under_deadline:
  "(bundle_field s_body ctx = None \<longrightarrow>
      body ctx = \<lparr>br_value = Inr JUndefined, br_waited = 0, br_reads = []\<rparr>)
   \<and> (\<forall>sch. bundle_field s_body ctx = Some sch \<longrightarrow>
        (\<exists>kind. br_reads (body ctx) = [kind]
           \<and> br_waited (body ctx) \<le> 3000
           \<and> (read_expired kind (r_readers (ctx_r ctx)) 3000 \<longrightarrow>
                br_value (body ctx) = Inl (Exception 413))
           \<and> (\<forall>err. read_rejected kind (r_readers (ctx_r ctx)) 3000 err
                      \<and> err \<noteq> DeadlineError \<longrightarrow>
                br_value (body ctx) = Inl (Exception 400))))"
proof (intro conjI allI impI)
  assume "bundle_field s_body ctx = None"
  then show "body ctx = \<lparr>br_value = Inr JUndefined, br_waited = 0, br_reads = []\<rparr>"
    by (simp add: body_def)
next
  fix sch
  assume sch: "bundle_field s_body ctx = Some sch"
  let ?kind = "fst (body_try ctx sch)"
  have reads: "br_reads (body ctx) = [?kind]"
    by (rule body_reads [OF sch])
  have waited: "br_waited (body ctx) \<le> 3000"
    by (simp add: body_waited [OF sch] body_try_waited)
  have late: "br_value (body ctx) = Inl (Exception 413)"
    if "read_expired ?kind (r_readers (ctx_r ctx)) 3000"
    using body_value_rejected [OF sch body_try_expired [OF that]]
    by (simp add: body_catch_def)
  have failed: "br_value (body ctx) = Inl (Exception 400)"
    if "read_rejected ?kind (r_readers (ctx_r ctx)) 3000 err \<and> err \<noteq> DeadlineError" for err
    using body_value_rejected [OF sch body_try_rejected [of ctx sch err]] that
    by (simp add: body_catch_def)
  from reads waited late failed
  show "\<exists>kind. br_reads (body ctx) = [kind]
           \<and> br_waited (body ctx) \<le> 3000
           \<and> (read_expired kind (r_readers (ctx_r ctx)) 3000 \<longrightarrow>
                br_value (body ctx) = Inl (Exception 413))
           \<and> (\<forall>err. read_rejected kind (r_readers (ctx_r ctx)) 3000 err
                      \<and> err \<noteq> DeadlineError \<longrightarrow>
                br_value (body ctx) = Inl (Exception 400))"
    by blast
qed

text \<open>
  A text read that never settles, a JSON read that is rejected with a \<open>SyntaxError\<close> after
  5 milliseconds, and a context without schemas.
\<close>

theorem body_reads_under_deadline_witness:
  "br_value (body (body_context string_schema JUndefined [] pending_readers))
     = Inl (Exception 413)
   \<and> br_waited (body (body_context string_schema JUndefined [] pending_readers)) \<le> 3000
   \<and> br_value (body (body_context any_mapping JUndefined []
         (pending_readers\<lparr>r_json := Settles 5 (Rejected (PlatformError ''SyntaxError''))\<rparr>)))
     = Inl (Exception 400)
   \<and> body (new_context [] None (request_of []) None)
     = \<lparr>br_value = Inr JUndefined, br_waited = 0, br_reads = []\<rparr>"
  using body_reads_under_deadline [of "body_context string_schema JUndefined [] pending_readers"]
    body_reads_under_deadline [of "body_context any_mapping JUndefined []
         (pending_readers\<lparr>r_json := Settles 5 (Rejected (PlatformError ''SyntaxError''))\<rparr>)"]
    body_reads_under_deadline [of "new_context [] None (request_of []) None"]
  by (simp add: body_context_def example_defs string_schema_def pending_readers_def body_defs)

text \<open>
  The form data entries become an object with one property per key, the last entry of a
  key giving the value.
\<close>

lemma distinct_form_fold:
  "distinct (map fst acc) \<Longrightarrow>
   distinct (map fst (foldl (\<lambda>acc e. obj_set acc (fst e) (snd e)) acc es))"
  by (induction es arbitrary: acc) (simp_all add: distinct_obj_set)

lemma map_of_form_fold:
  "map_of (foldl (\<lambda>acc e. obj_set acc (fst e) (snd e)) acc es) k =
     (case map_of (rev es) k of None \<Rightarrow> map_of acc k | Some v \<Rightarrow> Some v)"
proof (induction es arbitrary: acc)
  case Nil
  then show ?case by simp
next
  case (Cons e es)
  show ?case
    by (cases e) (simp add: Cons.IH map_of_obj_set map_add_def split: option.splits)
qed

lemma flatten_form_plain:
  "\<exists>ob. flatten_form es = JObj ob \<and> distinct (map fst ob)
     \<and> (\<forall>k. map_of ob k = map_of (rev es) k)"
proof -
  let ?ob = "foldl (\<lambda>acc e. obj_set acc (fst e) (snd e)) [] es"
  have "distinct (map fst ?ob)"
    by (rule distinct_form_fold) simp
  moreover have "map_of ?ob k = map_of (rev es) k" for k
    by (simp add: map_of_form_fold split: option.splits)
  ultimately show ?thesis
    by (simp add: flatten_form_def)
qed

lemma flatten_form_example:
  "flatten_form [(''a'', JStr ''1''), (''b'', JStr ''x''), (''a'', JStr ''2'')]
     = JObj [(''a'', JStr ''2''), (''b'', JStr ''x'')]"
  by (simp add: flatten_form_def)

lemma body_try_kind:
  "fst (body_try ctx sch) =
     (if typeName (zdef sch) = ''ZodString''
         \<or> (typeName (zdef sch) = ''ZodUnion''
            \<and> (\<forall>opt \<in> set (options (zdef sch)). typeName opt = ''ZodString''))
      then ReadText
      else if (\<exists>b. ctx_s ctx = Some b \<and> s_transform b = JBool True)
              \<and> headers_get (r_headers (ctx_r ctx)) ''content-type''
                  = Some ''multipart/form-data''
      then ReadFormData
      else ReadJson)"
  by (auto simp add: body_try_def is_string_schema_def is_form_request_def bundle_field_def
      list_all_iff split: option.splits)

lemma body_try_text:
  "fst (body_try ctx sch) = ReadText \<Longrightarrow>
   fulfilled_in_time (r_text (r_readers (ctx_r ctx))) 3000 s \<Longrightarrow>
   fst (snd (body_try ctx sch)) = Fulfilled (JStr s)"
  by (auto simp add: body_try_def map_settled_fulfilled deadline_fulfilled split: if_splits)

lemma body_try_form:
  "fst (body_try ctx sch) = ReadFormData \<Longrightarrow>
   snd (body_try ctx sch)
     = map_settled flatten_form (resolveWithDeadline (r_formData (r_readers (ctx_r ctx))) 3000)"
  by (auto simp add: body_try_def split: if_splits)

lemma body_try_json:
  "fst (body_try ctx sch) = ReadJson \<Longrightarrow>
   fulfilled_in_time (r_json (r_readers (ctx_r ctx))) 3000 v \<Longrightarrow>
   fst (snd (body_try ctx sch)) = Fulfilled v"
  by (auto simp add: body_try_def deadline_fulfilled split: if_splits)

lemma body_value_form:
  assumes sch: "bundle_field s_body ctx = Some sch"
    and kind: "fst (body_try ctx sch) = ReadFormData"
  shows "br_value (body ctx) =
     (case fst (resolveWithDeadline (r_formData (r_readers (ctx_r ctx))) 3000) of
        Rejected err \<Rightarrow> Inl (Exception (if err = DeadlineError then 413 else 400))
      | Fulfilled es \<Rightarrow> validated sch (flatten_form es))"
proof (cases "fst (resolveWithDeadline (r_formData (r_readers (ctx_r ctx))) 3000)")
  case (Fulfilled es)
  then have "fst (snd (body_try ctx sch)) = Fulfilled (flatten_form es)"
    by (simp add: body_try_form [OF kind] map_settled_fulfilled)
  from body_value_fulfilled [OF sch this] Fulfilled show ?thesis by simp
next
  case (Rejected err)
  then have "fst (snd (body_try ctx sch)) = Rejected err"
    by (simp add: body_try_form [OF kind] map_settled_rejected)
  from body_value_rejected [OF sch this] Rejected show ?thesis
    by (simp add: body_catch_def)
qed

text \<open>
  C8.  With a body schema the method calls exactly one reader, chosen in this order:
  \<open>text()\<close> when the type name of the schema is \<open>ZodString\<close>, or is \<open>ZodUnion\<close> with every
  option a \<open>ZodString\<close>; else \<open>formData()\<close> when the bundle's \<open>transform\<close> is \<open>true\<close> and the
  \<open>content-type\<close> header is exactly \<open>multipart/form-data\<close>; else \<open>json()\<close>.  What is read is
  what is validated: the text as a string and the JSON value as it is.  On the form data
  path the result follows the awaited \<open>formData()\<close>: its rejection becomes the exception of
  the \<open>catch\<close> block, its entries are flattened and validated.  The flattened entries are
  an object with one property per key, the last entry of a key giving the value.
\<close>

theorem body_decoding_strategy:
  "bundle_field s_body ctx = Some sch \<Longrightarrow>
   br_reads (body ctx) =
     [if typeName (zdef sch) = ''ZodString''
         \<or> (typeName (zdef sch) = ''ZodUnion''
            \<and> (\<forall>opt \<in> set (options (zdef sch)). typeName opt = ''ZodString''))
      then ReadText
      else if (\<exists>b. ctx_s ctx = Some b \<and> s_transform b = JBool True)
              \<and> headers_get (r_headers (ctx_r ctx)) ''content-type''
                  = Some ''multipart/form-data''
      then ReadFormData
      else ReadJson]
   \<and> (br_reads (body ctx) = [ReadText] \<longrightarrow>
        (\<forall>s. fulfilled_in_time (r_text (r_readers (ctx_r ctx))) 3000 s \<longrightarrow>
           br_value (body ctx) = validated sch (JStr s)))
   \<and> (br_reads (body ctx) = [ReadFormData] \<longrightarrow>
        br_value (body ctx) =
          (case fst (resolveWithDeadline (r_formData (r_readers (ctx_r ctx))) 3000) of
             Rejected err \<Rightarrow> Inl (Exception (if err = DeadlineError then 413 else 400))
           | Fulfilled es \<Rightarrow> validated sch (flatten_form es)))
   \<and> (\<forall>es. \<exists>ob. flatten_form es = JObj ob
          \<and> distinct (map fst ob)
          \<and> (\<forall>k. map_of ob k = map_of (rev es) k))
   \<and> (br_reads (body ctx) = [ReadJson] \<longrightarrow>
        (\<forall>v. fulfilled_in_time (r_json (r_readers (ctx_r ctx))) 3000 v \<longrightarrow>
           br_value (body ctx) = validated sch v))"
proof (intro conjI impI allI)
  assume sch: "bundle_field s_body ctx = Some sch"
  show "br_reads (body ctx) =
     [if typeName (zdef sch) = ''ZodString''
         \<or> (typeName (zdef sch) = ''ZodUnion''
            \<and> (\<forall>opt \<in> set (options (zdef sch)). typeName opt = ''ZodString''))
      then ReadText
      else if (\<exists>b. ctx_s ctx = Some b \<and> s_transform b = JBool True)
              \<and> headers_get (r_headers (ctx_r ctx)) ''content-type''
                  = Some ''multipart/form-data''
      then ReadFormData
      else ReadJson]"
    unfolding body_reads [OF sch] body_try_kind by (rule refl)
next
  fix s
  assume sch: "bundle_field s_body ctx = Some sch"
    and "br_reads (body ctx) = [ReadText]"
    and ok: "fulfilled_in_time (r_text (r_readers (ctx_r ctx))) 3000 s"
  then have "fst (body_try ctx sch) = ReadText"
    by (simp add: body_reads)
  from body_value_fulfilled [OF sch body_try_text [OF this ok]]
  show "br_value (body ctx) = validated sch (JStr s)" .
next
  assume sch: "bundle_field s_body ctx = Some sch"
    and "br_reads (body ctx) = [ReadFormData]"
  then have "fst (body_try ctx sch) = ReadFormData"
    by (simp add: body_reads)
  from body_value_form [OF sch this]
  show "br_value (body ctx) =
          (case fst (resolveWithDeadline (r_formData (r_readers (ctx_r ctx))) 3000) of
             Rejected err \<Rightarrow> Inl (Exception (if err = DeadlineError then 413 else 400))
           | Fulfilled es \<Rightarrow> validated sch (flatten_form es))" .
next
  fix es
  show "\<exists>ob. flatten_form es = JObj ob
          \<and> distinct (map fst ob)
          \<and> (\<forall>k. map_of ob k = map_of (rev es) k)"
    by (rule flatten_form_plain)
next
  fix v
  assume sch: "bundle_field s_body ctx = Some sch"
    and "br_reads (body ctx) = [ReadJson]"
    and ok: "fulfilled_in_time (r_json (r_readers (ctx_r ctx))) 3000 v"
  then have "fst (body_try ctx sch) = ReadJson"
    by (simp add: body_reads)
  from body_value_fulfilled [OF sch body_try_json [OF this ok]]
  show "br_value (body ctx) = validated sch v" .
qed

text \<open>
  A union of string schemas reads text.  With \<open>transform\<close> and the content type
  \<open>multipart/form-data\<close> the method calls \<open>formData()\<close>; the platform rejects that call with
  a \<open>TypeError\<close>, the content type naming no boundary, so the method throws
  \<open>Exception(400)\<close>.  The same with a boundary parameter in the content type reads JSON.
\<close>

theorem body_decoding_strategy_witness:
  "body (body_context string_union_schema JUndefined []
       (pending_readers\<lparr>r_text := Settles 1 (Fulfilled ''hi'')\<rparr>))
     = \<lparr>br_value = Inr (JStr ''hi''), br_waited = 1, br_reads = [ReadText]\<rparr>
   \<and> body (body_context any_mapping (JBool True) [(''content-type'', ''multipart/form-data'')]
       (pending_readers\<lparr>r_formData := Settles 2 (Rejected (PlatformError ''TypeError''))\<rparr>))
     = \<lparr>br_value = Inl (Exception 400), br_waited = 2, br_reads = [ReadFormData]\<rparr>
   \<and> body (body_context any_mapping (JBool True)
       [(''content-type'', ''multipart/form-data; boundary=x'')]
       (pending_readers\<lparr>r_json := Settles 3 (Fulfilled (JObj [(''n'', JNum 7)]))\<rparr>))
     = \<lparr>br_value = Inr (JObj [(''n'', JNum 7)]), br_waited = 3, br_reads = [ReadJson]\<rparr>"
  using body_decoding_strategy [of "body_context string_union_schema JUndefined []
       (pending_readers\<lparr>r_text := Settles 1 (Fulfilled ''hi'')\<rparr>)" string_union_schema]
    body_decoding_strategy [of "body_context any_mapping (JBool True)
       [(''content-type'', ''multipart/form-data'')]
       (pending_readers\<lparr>r_formData := Settles 2 (Rejected (PlatformError ''TypeError''))\<rparr>)"
       any_mapping]
    body_decoding_strategy [of "body_context any_mapping (JBool True)
       [(''content-type'', ''multipart/form-data; boundary=x'')]
       (pending_readers\<lparr>r_json := Settles 3 (Fulfilled (JObj [(''n'', JNum 7)]))\<rparr>)"
       any_mapping]
  by (simp add: body_context_def example_defs string_union_schema_def pending_readers_def
      body_defs)

subsection \<open>The raw readers\<close>

lemma raw_read_best_effort:
  "\<exists>res t. raw_read reader r d = (Inr res, t) \<and> t \<le> d
     \<and> (if r_bodyUsed r
        then (case r_clone r of
                Inl err \<Rightarrow> res = None
              | Inr copy \<Rightarrow> best_effort res (reader copy) d)
        else best_effort res (reader (r_readers r)) d)"
  by (auto simp add: raw_read_def raw_try_def resolveWithDeadline_def best_effort_def
      expired_def rejected_in_time_def fulfilled_in_time_def
      split: sum.splits promise.splits settled.splits)

text \<open>
  C9.  Each of \<open>blob\<close>, \<open>buffer\<close> and \<open>formData\<close>, for every request and every deadline (2500
  milliseconds when none is given), returns and never throws, within the deadline.  It
  reads the clone when the body is used and the request itself otherwise.  The result is
  \<open>null\<close> when \<open>clone()\<close> throws, when the deadline expires and when the read is rejected,
  and it is the value read when the read is fulfilled in time.
\<close>

theorem raw_readers_never_raise:
  "(\<exists>res t. blob d ctx = (Inr res, t) \<and> t \<le> (case d of None \<Rightarrow> 2500 | Some ms \<Rightarrow> ms)
      \<and> (if r_bodyUsed (ctx_r ctx)
         then (case r_clone (ctx_r ctx) of
                 Inl err \<Rightarrow> res = None
               | Inr copy \<Rightarrow>
                   best_effort res (r_blob copy) (case d of None \<Rightarrow> 2500 | Some ms \<Rightarrow> ms))
         else best_effort res (r_blob (r_readers (ctx_r ctx)))
                (case d of None \<Rightarrow> 2500 | Some ms \<Rightarrow> ms)))
   \<and> (\<exists>res t. buffer d ctx = (Inr res, t) \<and> t \<le> (case d of None \<Rightarrow> 2500 | Some ms \<Rightarrow> ms)
      \<and> (if r_bodyUsed (ctx_r ctx)
         then (case r_clone (ctx_r ctx) of
                 Inl err \<Rightarrow> res = None
               | Inr copy \<Rightarrow>
                   best_effort res (r_arrayBuffer copy)
                     (case d of None \<Rightarrow> 2500 | Some ms \<Rightarrow> ms))
         else best_effort res (r_arrayBuffer (r_readers (ctx_r ctx)))
                (case d of None \<Rightarrow> 2500 | Some ms \<Rightarrow> ms)))
   \<and> (\<exists>res t. formData d ctx = (Inr res, t)
      \<and> t \<le> (case d of None \<Rightarrow> 2500 | Some ms \<Rightarrow> ms)
      \<and> (if r_bodyUsed (ctx_r ctx)
         then (case r_clone (ctx_r ctx) of
                 Inl err \<Rightarrow> res = None
               | Inr copy \<Rightarrow>
                   best_effort res (r_formData copy)
                     (case d of None \<Rightarrow> 2500 | Some ms \<Rightarrow> ms))
         else best_effort res (r_formData (r_readers (ctx_r ctx)))
                (case d of None \<Rightarrow> 2500 | Some ms \<Rightarrow> ms)))"
  unfolding blob_def buffer_def formData_def default_deadline_def
  by (intro conjI raw_read_best_effort)

text \<open>
  A rejected \<open>blob()\<close>, a fulfilled \<open>arrayBuffer()\<close>, a \<open>formData()\<close> that never settles under
  the default deadline and under one of 100 milliseconds, and a \<open>blob()\<close> of the clone of a
  used request.
\<close>

theorem raw_readers_never_raise_witness:
  "blob None raw_context = (Inr None, 10)
   \<and> buffer None raw_context = (Inr (Some [1, 2, 3]), 3)
   \<and> formData None raw_context = (Inr None, 2500)
   \<and> formData (Some 100) raw_context = (Inr None, 100)
   \<and> blob None used_context = (Inr (Some [7]), 4)"
  using raw_readers_never_raise [of None raw_context]
    raw_readers_never_raise [of "Some 100" raw_context]
    raw_readers_never_raise [of None used_context]
  by (simp add: raw_context_def used_context_def new_context_def pending_readers_def blob_def
      buffer_def formData_def default_deadline_def raw_read_def raw_try_def
      resolveWithDeadline_def)

end
